theory Spec2Isabelle
  imports Complex_Main "HOL-Library.Sublist"
begin

section \<open>The HTTP client of src/services/api.ts\<close>

text \<open>
  The module keeps two pieces of module-level state, \<open>retryCount\<close> and
  \<open>rateLimitConfig.requestQueue\<close>, and installs a request interceptor and a response
  interceptor on an axios instance. The model threads that state explicitly, together
  with \<open>localStorage\<close> and a log of the effects the interceptors perform on their
  collaborators (toasts, timers, the transport).

  Readings of the outside world are arguments: \<open>Date.now()\<close> is \<open>now\<close> (milliseconds,
  one reading per interceptor call), \<open>Math.random()\<close> is \<open>rnd\<close> (a real number, the
  jitter is computed over the reals), the random rsuffix of the request id is
  \<open>rsuffix\<close>, and \<open>config\<close> of \<open>../config/environment\<close> and
  \<open>window.location.pathname\<close> are the fields of \<open>environment\<close>.
  Console logging that depends on \<open>config.logging\<close> only is left out.
\<close>

subsection \<open>Strings and numbers of the host language\<close>

text \<open>\<open>s.includes(sub)\<close>: \<open>sub\<close> occurs in \<open>s\<close> as a contiguous substring.\<close>

fun str_includes :: "string \<Rightarrow> string \<Rightarrow> bool" where
  "str_includes [] sub = (sub = [])"
| "str_includes (c # cs) sub = (prefix sub (c # cs) \<or> str_includes cs sub)"

text \<open>
  A number of the host language, as far as the module computes with it: \<open>NaN\<close>, a
  number that the model computes exactly, or \<open>Large\<close>: a double of magnitude 2^53 or
  more (an infinity included), where doubles no longer hold every integer and the model
  does not say which double it is.
\<close>

datatype jsnum = NaN | Num real | Large

text \<open>
  A string handed to \<open>parseInt\<close> is a list of UTF-16 code units, so that the white space
  beyond ASCII can be told. \<open>utf16\<close> gives the code units of an ASCII string.
\<close>

definition utf16 :: "string \<Rightarrow> nat list" where
  "utf16 s = map of_char s"

text \<open>
  The white space that \<open>parseInt\<close> skips: TAB, LF, VT, FF, CR, SP, NBSP, the other
  space separators of Unicode, LS, PS and the byte order mark.
\<close>

definition isWhiteSpace :: "nat \<Rightarrow> bool" where
  "isWhiteSpace u =
     (u \<in> set [0x09, 0x0A, 0x0B, 0x0C, 0x0D, 0x20, 0xA0, 0x1680, 0x2028, 0x2029, 0x202F,
               0x205F, 0x3000, 0xFEFF]
      \<or> (0x2000 \<le> u \<and> u \<le> 0x200A))"

text \<open>The value of a digit: \<open>0\<close> to \<open>9\<close>, then \<open>a\<close> to \<open>z\<close> or \<open>A\<close> to \<open>Z\<close> from 10 on.\<close>

definition digitValue :: "nat \<Rightarrow> nat option" where
  "digitValue u =
     (if 48 \<le> u \<and> u \<le> 57 then Some (u - 48)
      else if 97 \<le> u \<and> u \<le> 122 then Some (u - 87)
      else if 65 \<le> u \<and> u \<le> 90 then Some (u - 55)
      else None)"

definition isDigitIn :: "nat \<Rightarrow> nat \<Rightarrow> bool" where
  "isDigitIn radix u = (case digitValue u of None \<Rightarrow> False | Some d \<Rightarrow> d < radix)"

definition digitsValue :: "nat \<Rightarrow> nat list \<Rightarrow> nat" where
  "digitsValue radix ds =
     foldl (\<lambda>acc u. acc * radix + (case digitValue u of None \<Rightarrow> 0 | Some d \<Rightarrow> d)) 0 ds"

text \<open>An integer as a Number: exact up to 2^53 in magnitude.\<close>

definition toNumber :: "int \<Rightarrow> jsnum" where
  "toNumber z = (if \<bar>z\<bar> \<le> 2 ^ 53 then Num (of_int z) else Large)"

text \<open>
  \<open>parseInt(s)\<close> without a radix: leading white space is skipped, a sign (\<open>-\<close> is 45,
  \<open>+\<close> is 43) is read, a prefix \<open>0x\<close> or \<open>0X\<close> selects radix 16, the longest prefix
  of digits is converted, and no digit at all gives \<open>NaN\<close>.
\<close>

definition parseInt :: "nat list \<Rightarrow> jsnum" where
  "parseInt s =
     (let s1 = dropWhile isWhiteSpace s;
          negative = (s1 \<noteq> [] \<and> hd s1 = 45);
          s2 = (if s1 \<noteq> [] \<and> (hd s1 = 45 \<or> hd s1 = 43) then tl s1 else s1);
          hex = (prefix [48, 120] s2 \<or> prefix [48, 88] s2);
          radix = (if hex then 16 else 10);
          s3 = (if hex then drop 2 s2 else s2);
          ds = takeWhile (isDigitIn radix) s3
      in if ds = [] then NaN
         else toNumber ((if negative then - 1 else 1) * int (digitsValue radix ds)))"

text \<open>The decimal numeral of a natural number, as template literals print it.\<close>

fun decimal :: "nat \<Rightarrow> string" where
  "decimal n =
     (if n < 10 then [char_of (48 + n)]
      else decimal (n div 10) @ [char_of (48 + n mod 10)])"

definition showInt :: "int \<Rightarrow> string" where
  "showInt i = (if i < 0 then CHR ''-'' # decimal (nat (- i)) else decimal (nat i))"

subsection \<open>Data\<close>

record request_record =
  timestamp :: int
  endpoint :: string

record metadata =
  startTime :: int
  meta_endpoint :: string

text \<open>
  The request configuration: \<open>retry\<close> is the field \<open>_retry\<close>, absent (falsy) on a
  fresh request.
\<close>

record request_config =
  url :: "string option"
  headers :: "string \<rightharpoonup> string"
  retry :: bool
  metadata :: "metadata option"

text \<open>
  A response: its status, its \<open>retry-after\<close> header (in code units), and the fields \<open>error\<close> and
  \<open>message\<close> of its body.
\<close>

record response =
  status :: nat
  retry_after :: "nat list option"
  data_error :: "string option"
  data_message :: "string option"

text \<open>
  What reaches the error handler of the response interceptor: the \<open>Error\<close> made by
  the request interceptor (marked \<open>isRateLimit\<close>, without response and config) or an
  error of the transport.
\<close>

record api_error =
  isRateLimit :: bool
  response :: "response option"
  config :: "request_config option"
  message :: string

text \<open>The text of a toast: a literal, or one of the three templates of the module.\<close>

datatype toast_text =
    Lit string
  | RateLimitRetrying jsnum
      \<comment> \<open>\<open>Rate limit exceeded. Retrying in ${delay / 1000} seconds...\<close>, holding \<open>delay\<close>\<close>
  | ConnectionRetrying nat int
      \<comment> \<open>\<open>Connection failed. Retrying... (${retryCount}/${maxRetries})\<close>\<close>
  | ServerRetrying nat int
      \<comment> \<open>\<open>Server error. Retrying... (${retryCount}/${maxRetries})\<close>\<close>

datatype effect =
    ToastError toast_text
  | ToastInfo toast_text
  | ConsoleWarn string
  | RemoveItem string
  | RedirectAfter nat string
      \<comment> \<open>\<open>setTimeout(() => { window.location.href = path }, ms)\<close>\<close>
  | Wait jsnum
      \<comment> \<open>\<open>await new Promise(resolve => setTimeout(resolve, delay))\<close>\<close>
  | Send request_config
      \<comment> \<open>the transport is called with this configuration\<close>

record client_state =
  retryCount :: nat
  requestQueue :: "request_record list"
  localStorage :: "string \<rightharpoonup> string"
  effects :: "effect list"

record environment =
  apiRetryAttempts :: "int option"
  apiRetryDelay :: "int option"
  pathname :: string

subsection \<open>Configuration\<close>

text \<open>\<open>x || d\<close> on a number that may be missing: \<open>undefined\<close> and \<open>0\<close> are falsy.\<close>

definition orDefault :: "int option \<Rightarrow> int \<Rightarrow> int" where
  "orDefault x d = (case x of None \<Rightarrow> d | Some v \<Rightarrow> if v = 0 then d else v)"

text \<open>\<open>s || d\<close> on a string that may be missing: \<open>undefined\<close> and \<open>''\<close> are falsy.\<close>

definition orElse :: "string option \<Rightarrow> string \<Rightarrow> string" where
  "orElse x d = (case x of None \<Rightarrow> d | Some v \<Rightarrow> if v = [] then d else v)"

definition maxRetries :: "environment \<Rightarrow> int" where
  "maxRetries env = orDefault (apiRetryAttempts env) 3"

definition baseDelay :: "environment \<Rightarrow> int" where
  "baseDelay env = orDefault (apiRetryDelay env) 1000"

definition maxRequests :: nat where
  "maxRequests = 200"

definition windowMs :: int where
  "windowMs = 60000"

definition criticalEndpoints :: "string list" where
  "criticalEndpoints = [''/auth/login'', ''/auth/refresh'', ''/health'']"

subsection \<open>The request queue\<close>

definition cleanupOldRequests :: "int \<Rightarrow> client_state \<Rightarrow> client_state" where
  "cleanupOldRequests now st =
     st\<lparr>requestQueue := filter (\<lambda>req. now - timestamp req < windowMs) (requestQueue st)\<rparr>"

definition shouldRateLimit :: "int \<Rightarrow> string \<Rightarrow> client_state \<Rightarrow> bool \<times> client_state" where
  "shouldRateLimit now ep st =
     (let st1 = cleanupOldRequests now st in
      if list_ex (\<lambda>critical. str_includes ep critical) criticalEndpoints then (False, st1)
      else (maxRequests \<le> length (requestQueue st1), st1))"

definition addToRequestQueue :: "int \<Rightarrow> string \<Rightarrow> client_state \<Rightarrow> client_state" where
  "addToRequestQueue now ep st =
     st\<lparr>requestQueue := requestQueue st @ [\<lparr>timestamp = now, endpoint = ep\<rparr>]\<rparr>"

subsection \<open>The request interceptor\<close>

definition rateLimitError :: api_error where
  "rateLimitError =
     \<lparr>isRateLimit = True, response = None, config = None,
      message = ''Rate limit exceeded. Please slow down your requests.''\<rparr>"

definition requestId :: "int \<Rightarrow> string \<Rightarrow> string" where
  "requestId now rsuffix = ''req_'' @ showInt now @ ''_'' @ rsuffix"

definition requestInterceptor ::
  "int \<Rightarrow> string \<Rightarrow> request_config \<Rightarrow> client_state \<Rightarrow> (api_error + request_config) \<times> client_state"
where
  "requestInterceptor now rsuffix cfg st =
     (let ep = orElse (url cfg) [];
          (limited, st1) = shouldRateLimit now ep st
      in if limited then (Inl rateLimitError, st1)
         else
           (let st2 = addToRequestQueue now ep st1;
                cfg1 = (case localStorage st2 ''auth_token'' of
                          None \<Rightarrow> cfg
                        | Some token \<Rightarrow>
                            if token = [] then cfg
                            else cfg\<lparr>headers := (headers cfg)(''Authorization'' \<mapsto> ''Bearer '' @ token)\<rparr>);
                cfg2 = cfg1\<lparr>metadata := Some \<lparr>startTime = now, meta_endpoint = ep\<rparr>\<rparr>;
                cfg3 = cfg2\<lparr>headers := (headers cfg2)(''X-Request-ID'' \<mapsto> requestId now rsuffix)\<rparr>
            in (Inr cfg3, st2)))"

subsection \<open>The response interceptor\<close>

definition emit :: "effect \<Rightarrow> client_state \<Rightarrow> client_state" where
  "emit e st = st\<lparr>effects := effects st @ [e]\<rparr>"

definition removeItem :: "string \<Rightarrow> client_state \<Rightarrow> client_state" where
  "removeItem k st = emit (RemoveItem k) (st\<lparr>localStorage := (localStorage st)(k := None)\<rparr>)"

text \<open>The handler of a fulfilled response.\<close>

definition responseSuccess :: "client_state \<Rightarrow> client_state" where
  "responseSuccess st = st\<lparr>retryCount := 0\<rparr>"

text \<open>
  The handler of a rejected one ends in one of three ways: the error is rejected to the
  caller, \<open>apiClient(originalRequest)\<close> is returned (after the wait recorded in the
  effects), or reading \<open>originalRequest._retry\<close> throws because \<open>error.config\<close> is
  undefined.
\<close>

datatype outcome =
    Reject api_error
  | Reissue "request_config option"
  | TypeError

definition statusOf :: "api_error \<Rightarrow> nat option" where
  "statusOf err = map_option status (response err)"

text \<open>\<open>originalRequest?.metadata?.endpoint || originalRequest?.url || ''\<close>\<close>

definition endpointOf :: "request_config option \<Rightarrow> string" where
  "endpointOf orig =
     (case orig of
        None \<Rightarrow> []
      | Some req \<Rightarrow>
          orElse (map_option meta_endpoint (metadata req)) (orElse (url req) []))"

text \<open>\<open>requestQueue.slice(-50)\<close>: the last 50 records, all of them when there are fewer.\<close>

definition sliceLast :: "nat \<Rightarrow> 'a list \<Rightarrow> 'a list" where
  "sliceLast n xs = drop (length xs - n) xs"

text \<open>
  \<open>retryAfter ? parseInt(retryAfter) * 1000 : 5000\<close>. What \<open>parseInt\<close> returns is an
  integer, and its product with 1000 is exact in doubles up to 2^53.
\<close>

definition retryAfterDelay :: "nat list option \<Rightarrow> jsnum" where
  "retryAfterDelay retryAfter =
     (case retryAfter of
        None \<Rightarrow> Num 5000
      | Some s \<Rightarrow>
          if s = [] then Num 5000
          else (case parseInt s of
                  NaN \<Rightarrow> NaN
                | Large \<Rightarrow> Large
                | Num x \<Rightarrow> if \<bar>x\<bar> * 1000 \<le> 2 ^ 53 then Num (x * 1000) else Large))"

text \<open>The tail of the handler, after the retry branches: \<open>retryCount = 0\<close> and a toast.\<close>

definition giveUp :: "api_error \<Rightarrow> client_state \<Rightarrow> outcome \<times> client_state" where
  "giveUp err st =
     (let st1 = st\<lparr>retryCount := 0\<rparr> in
      case response err of
        None \<Rightarrow>
          (Reject (err\<lparr>message := ''Network error. Please check your internet connection.''\<rparr>),
           emit (ToastError (Lit ''Network error. Please check your internet connection.'')) st1)
      | Some r \<Rightarrow>
          if 500 \<le> status r then
            (Reject err, emit (ToastError (Lit ''Server error. Please try again later.'')) st1)
          else if 400 \<le> status r \<and> status r < 500 then
            (let errorMessage = orElse (data_error r) (orElse (data_message r) ''Request failed'') in
             if \<not> str_includes errorMessage ''Session expired'' \<and> \<not> str_includes errorMessage ''Access denied''
             then (Reject err, emit (ToastError (Lit errorMessage)) st1)
             else (Reject err, st1))
          else (Reject err, st1))"

definition responseError ::
  "environment \<Rightarrow> real \<Rightarrow> api_error \<Rightarrow> client_state \<Rightarrow> outcome \<times> client_state"
where
  "responseError env rnd err st =
     (let originalRequest = config err in
      if isRateLimit err then
        (Reject err,
         emit (ToastError (Lit ''Too many requests. Please slow down and try again in a moment.'')) st)
      else if statusOf err = Some 401 then
        (let st1 = removeItem ''auth_token'' st;
             st2 = removeItem ''user_data'' st1;
             st3 = emit (ToastError (Lit ''Session expired. Please log in again.'')) st2;
             st4 = (if \<not> str_includes (pathname env) ''/auth''
                    then emit (RedirectAfter 1500 ''/auth'') st3 else st3)
         in (Reject err, st4))
      else if statusOf err = Some 403 then
        (Reject err,
         emit (ToastError (Lit ''Access denied. You do not have permission to perform this action.'')) st)
      else if statusOf err = Some 404 then
        (let ep = endpointOf originalRequest in
         if str_includes ep ''/admin/''
         then (Reject err,
               emit (ConsoleWarn (''Admin endpoint not found: '' @ ep @ ''. Using fallback data if available.'')) st)
         else (Reject err, emit (ToastError (Lit ''Resource not found.'')) st))
      else if statusOf err = Some 429 then
        (let delay = retryAfterDelay (retry_after (the (response err)));
             st1 = emit (ToastError (RateLimitRetrying delay)) st;
             st2 = st1\<lparr>requestQueue := sliceLast 50 (requestQueue st1)\<rparr>;
             st3 = emit (Wait delay) st2
         in (Reissue originalRequest, st3))
      else if response err = None \<and> originalRequest = None then (TypeError, st)
      else if response err = None \<and> \<not> retry (the originalRequest)
              \<and> int (retryCount st) < maxRetries env then
        (let req = (the originalRequest)\<lparr>retry := True\<rparr>;
             st1 = st\<lparr>retryCount := retryCount st + 1\<rparr>;
             delay = of_int (baseDelay env) * 2 ^ (retryCount st1 - 1) + rnd * 1000;
             st2 = emit (ToastInfo (ConnectionRetrying (retryCount st1) (maxRetries env))) st1;
             st3 = emit (Wait (Num delay)) st2
         in (Reissue (Some req), st3))
      else if response err \<noteq> None \<and> 500 \<le> status (the (response err))
              \<and> originalRequest = None then (TypeError, st)
      else if response err \<noteq> None \<and> 500 \<le> status (the (response err))
              \<and> \<not> retry (the originalRequest) \<and> int (retryCount st) < maxRetries env then
        (let req = (the originalRequest)\<lparr>retry := True\<rparr>;
             st1 = st\<lparr>retryCount := retryCount st + 1\<rparr>;
             delay = of_int (baseDelay env) * 2 ^ (retryCount st1 - 1);
             st2 = emit (ToastError (ServerRetrying (retryCount st1) (maxRetries env))) st1;
             st3 = emit (Wait (Num delay)) st2
         in (Reissue (Some req), st3))
      else giveUp err st)"

subsection \<open>A call of \<open>apiClient\<close>\<close>

text \<open>
  A call runs the chain that axios builds from the interceptors: the request interceptor,
  the transport, the response interceptor. A rejection of the request interceptor skips
  the transport and reaches the error handler of the response interceptor. The transport
  is given the configuration the request interceptor returned, and an error of the
  transport carries that configuration as \<open>error.config\<close>, custom fields such as
  \<open>_retry\<close> included. A response with a status in [200, 300) is fulfilled, any other
  one is rejected with the response attached.

  The transport is the environment of the module: what it answers to each attempt is an
  input, one \<open>attempt\<close> per pass through the chain, with the readings of the clock
  and of the random source made during that pass.
\<close>

datatype transport_result =
    NoResponse
  | Responded response

record attempt =
  at_now :: int
  at_rsuffix :: string
  at_result :: transport_result
  at_rnd :: real

text \<open>
  How a call ends: resolved with a response, rejected with an error, rejected with the
  \<open>TypeError\<close> thrown in the handler, or still waiting for an answer of the transport
  after the attempts given.
\<close>

datatype final =
    Resolved response
  | Rejected api_error
  | Thrown
  | Pending "request_config option"

datatype step = Done final | Again "request_config option"

text \<open>\<open>apiClient(undefined)\<close> is a request with an empty configuration.\<close>

definition emptyConfig :: request_config where
  "emptyConfig = \<lparr>url = None, headers = Map.empty, retry = False, metadata = None\<rparr>"

definition afterError ::
  "environment \<Rightarrow> real \<Rightarrow> api_error \<Rightarrow> client_state \<Rightarrow> step \<times> client_state"
where
  "afterError env rnd err st =
     (case responseError env rnd err st of
        (Reject e, st1) \<Rightarrow> (Done (Rejected e), st1)
      | (Reissue cfg, st1) \<Rightarrow> (Again cfg, st1)
      | (TypeError, st1) \<Rightarrow> (Done Thrown, st1))"

definition transportError :: "request_config \<Rightarrow> transport_result \<Rightarrow> api_error" where
  "transportError cfg res =
     (case res of
        NoResponse \<Rightarrow>
          \<lparr>isRateLimit = False, response = None, config = Some cfg, message = ''Network Error''\<rparr>
      | Responded r \<Rightarrow>
          \<lparr>isRateLimit = False, response = Some r, config = Some cfg,
           message = ''Request failed with status code '' @ decimal (status r)\<rparr>)"

definition fulfilled :: "transport_result \<Rightarrow> bool" where
  "fulfilled res =
     (case res of NoResponse \<Rightarrow> False | Responded r \<Rightarrow> 200 \<le> status r \<and> status r < 300)"

definition attemptOnce ::
  "environment \<Rightarrow> attempt \<Rightarrow> request_config option \<Rightarrow> client_state \<Rightarrow> step \<times> client_state"
where
  "attemptOnce env a cfg st =
     (case requestInterceptor (at_now a) (at_rsuffix a)
             (case cfg of None \<Rightarrow> emptyConfig | Some c \<Rightarrow> c) st of
        (Inl e, st1) \<Rightarrow> afterError env (at_rnd a) e st1
      | (Inr c, st1) \<Rightarrow>
          (let st2 = emit (Send c) st1 in
           case at_result a of
             Responded r \<Rightarrow>
               if fulfilled (Responded r) then (Done (Resolved r), responseSuccess st2)
               else afterError env (at_rnd a) (transportError c (Responded r)) st2
           | NoResponse \<Rightarrow> afterError env (at_rnd a) (transportError c NoResponse) st2))"

fun apiClient ::
  "environment \<Rightarrow> attempt list \<Rightarrow> request_config option \<Rightarrow> client_state \<Rightarrow> final \<times> client_state"
where
  "apiClient env [] cfg st = (Pending cfg, st)"
| "apiClient env (a # as) cfg st =
     (case attemptOnce env a cfg st of
        (Done f, st1) \<Rightarrow> (f, st1)
      | (Again cfg1, st1) \<Rightarrow> apiClient env as cfg1 st1)"

subsection \<open>Reading the log of effects\<close>

text \<open>The delays waited before a re-issue, and the number of calls of the transport.\<close>

fun waits :: "effect list \<Rightarrow> jsnum list" where
  "waits [] = []"
| "waits (Wait d # es) = d # waits es"
| "waits (e # es) = waits es"

fun sends :: "effect list \<Rightarrow> nat" where
  "sends [] = 0"
| "sends (Send c # es) = Suc (sends es)"
| "sends (e # es) = sends es"

text \<open>The toasts raised, and the removals from \<open>localStorage\<close> of one key.\<close>

fun toasts :: "effect list \<Rightarrow> toast_text list" where
  "toasts [] = []"
| "toasts (ToastError t # es) = t # toasts es"
| "toasts (ToastInfo t # es) = t # toasts es"
| "toasts (e # es) = toasts es"

definition removals :: "string \<Rightarrow> effect list \<Rightarrow> nat" where
  "removals k es = length (filter (\<lambda>e. e = RemoveItem k) es)"

fun redirects :: "effect list \<Rightarrow> (nat \<times> string) list" where
  "redirects [] = []"
| "redirects (RedirectAfter ms path # es) = (ms, path) # redirects es"
| "redirects (e # es) = redirects es"

subsection \<open>A burst of requests\<close>

text \<open>
  Requests passed through the request interceptor one after the other, each with its
  reading of the clock: the state after them when every one was admitted, \<open>None\<close> as
  soon as one is rejected.
\<close>

fun admitAll :: "(int \<times> string \<times> request_config) list \<Rightarrow> client_state \<Rightarrow> client_state option" where
  "admitAll [] st = Some st"
| "admitAll ((now, rsuffix, cfg) # rs) st =
     (case requestInterceptor now rsuffix cfg st of
        (Inl e, st1) \<Rightarrow> None
      | (Inr c, st1) \<Rightarrow> admitAll rs st1)"

subsection \<open>Concrete inputs\<close>

text \<open>The defaults of the configuration, on a page outside the auth area.\<close>

definition exampleEnv :: environment where
  "exampleEnv = \<lparr>apiRetryAttempts = Some 3, apiRetryDelay = Some 1000, pathname = ''/articles''\<rparr>"

text \<open>A client that has not sent anything yet, with a stored credential.\<close>

definition idle :: client_state where
  "idle =
     \<lparr>retryCount = 0, requestQueue = [],
      localStorage = [''auth_token'' \<mapsto> ''t0k3n'', ''user_data'' \<mapsto> ''{}''],
      effects = []\<rparr>"

definition dataX :: request_config where
  "dataX = \<lparr>url = Some ''/data/x'', headers = Map.empty, retry = False, metadata = None\<rparr>"

text \<open>An attempt that gets no response, with a jitter of 500 ms.\<close>

definition netFail :: "int \<Rightarrow> attempt" where
  "netFail t = \<lparr>at_now = t, at_rsuffix = ''k3j9x0q1z'', at_result = NoResponse, at_rnd = 1 / 2\<rparr>"

text \<open>
  As many requests at time 1000 as the window holds, and the state they leave behind.
\<close>

definition burst :: "(int \<times> string \<times> request_config) list" where
  "burst = replicate maxRequests (1000, ''k3j9x0q1z'', dataX)"

definition saturated :: client_state where
  "saturated = idle\<lparr>requestQueue := replicate maxRequests \<lparr>timestamp = 1000, endpoint = ''/data/x''\<rparr>\<rparr>"

text \<open>A request to a critical endpoint.\<close>

definition login :: request_config where
  "login = \<lparr>url = Some ''/api/auth/login'', headers = Map.empty, retry = False, metadata = None\<rparr>"

text \<open>An attempt answered with a status and a \<open>retry-after\<close> header, with a jitter of 250 ms.\<close>

definition answered :: "int \<Rightarrow> nat \<Rightarrow> nat list option \<Rightarrow> attempt" where
  "answered t code retryAfter =
     \<lparr>at_now = t, at_rsuffix = ''p7m2c4v8b'',
      at_result = Responded \<lparr>status = code, retry_after = retryAfter,
                              data_error = None, data_message = None\<rparr>,
      at_rnd = 1 / 4\<rparr>"

text \<open>
  Eight answers with status 429: without a \<open>retry-after\<close> header, and with the headers
  \<open>2\<close>, \<open>007\<close> and \<open>7\<close> after a no-break space. A client that has used two of its
  retries; a queue one record short of its capacity.
\<close>

definition throttled :: "attempt list" where
  "throttled =
     [answered 1000 429 (Some (utf16 ''2'')), answered 3100 429 None,
      answered 8200 429 (Some (utf16 ''007'')), answered 15300 429 None,
      answered 20400 429 (Some (0xA0 # utf16 ''7'')), answered 27500 429 None,
      answered 32600 429 (Some (utf16 ''2'')), answered 34700 429 None]"

definition halfSpent :: client_state where
  "halfSpent = idle\<lparr>retryCount := 2\<rparr>"


text \<open>A request to an administrative endpoint.\<close>

definition adminUsers :: request_config where
  "adminUsers = \<lparr>url = Some ''/admin/users'', headers = Map.empty, retry = False, metadata = None\<rparr>"



section \<open>Properties\<close>

text \<open>
  The equation of \<open>decimal\<close> rewrites a call into a term with another call: it is
  unfolded by hand where it is needed.
\<close>

declare decimal.simps [simp del]

subsection \<open>The log of effects\<close>

lemma waits_append: "waits (xs @ ys) = waits xs @ waits ys"
  by (induction xs rule: waits.induct) simp_all

lemma sends_append: "sends (xs @ ys) = sends xs + sends ys"
  by (induction xs rule: sends.induct) simp_all

lemma toasts_append: "toasts (xs @ ys) = toasts xs @ toasts ys"
  by (induction xs rule: toasts.induct) simp_all

lemma redirects_append: "redirects (xs @ ys) = redirects xs @ redirects ys"
  by (induction xs rule: redirects.induct) simp_all

lemma removals_append: "removals k (xs @ ys) = removals k xs + removals k ys"
  by (simp add: removals_def)

subsection \<open>The branches of the error handler\<close>

lemma local_rate_limit_step:
  assumes "isRateLimit err"
  shows "responseError env rnd err st =
     (Reject err,
      st\<lparr>effects := effects st @
        [ToastError (Lit ''Too many requests. Please slow down and try again in a moment.'')]\<rparr>)"
  using assms by (simp add: responseError_def emit_def Let_def)

lemma unauthorized_step:
  assumes "\<not> isRateLimit err" "statusOf err = Some 401"
  shows "responseError env rnd err st =
     (Reject err,
      st\<lparr>localStorage := (localStorage st)(''auth_token'' := None, ''user_data'' := None),
         effects := effects st @
           [RemoveItem ''auth_token'', RemoveItem ''user_data'',
            ToastError (Lit ''Session expired. Please log in again.'')] @
           (if str_includes (pathname env) ''/auth'' then [] else [RedirectAfter 1500 ''/auth''])\<rparr>)"
  using assms by (simp add: responseError_def emit_def removeItem_def Let_def)

lemma forbidden_step:
  assumes "\<not> isRateLimit err" "statusOf err = Some 403"
  shows "responseError env rnd err st =
     (Reject err,
      st\<lparr>effects := effects st @
        [ToastError (Lit ''Access denied. You do not have permission to perform this action.'')]\<rparr>)"
  using assms by (simp add: responseError_def emit_def Let_def)

lemma not_found_step:
  assumes "\<not> isRateLimit err" "statusOf err = Some 404"
  shows "responseError env rnd err st =
     (Reject err,
      st\<lparr>effects := effects st @
        [if str_includes (endpointOf (config err)) ''/admin/''
         then ConsoleWarn (''Admin endpoint not found: '' @ endpointOf (config err)
                @ ''. Using fallback data if available.'')
         else ToastError (Lit ''Resource not found.'')]\<rparr>)"
  using assms by (simp add: responseError_def emit_def Let_def)

lemma rate_limit_server_step:
  assumes "\<not> isRateLimit err" "response err = Some r" "status r = 429"
  shows "responseError env rnd err st =
     (Reissue (config err),
      st\<lparr>requestQueue := sliceLast 50 (requestQueue st),
         effects := effects st @
           [ToastError (RateLimitRetrying (retryAfterDelay (retry_after r))),
            Wait (retryAfterDelay (retry_after r))]\<rparr>)"
  using assms by (simp add: responseError_def statusOf_def emit_def Let_def)

lemma network_retry:
  assumes "\<not> isRateLimit err" "response err = None" "config err = Some req"
    and "\<not> retry req" "int (retryCount st) < maxRetries env"
  shows "responseError env rnd err st =
     (Reissue (Some (req\<lparr>retry := True\<rparr>)),
      st\<lparr>retryCount := retryCount st + 1,
         effects := effects st @
           [ToastInfo (ConnectionRetrying (retryCount st + 1) (maxRetries env)),
            Wait (Num (of_int (baseDelay env) * 2 ^ retryCount st + rnd * 1000))]\<rparr>)"
  using assms by (simp add: responseError_def statusOf_def emit_def Let_def)

lemma server_retry:
  assumes "\<not> isRateLimit err" "response err = Some r" "500 \<le> status r" "config err = Some req"
    and "\<not> retry req" "int (retryCount st) < maxRetries env"
  shows "responseError env rnd err st =
     (Reissue (Some (req\<lparr>retry := True\<rparr>)),
      st\<lparr>retryCount := retryCount st + 1,
         effects := effects st @
           [ToastError (ServerRetrying (retryCount st + 1) (maxRetries env)),
            Wait (Num (of_int (baseDelay env) * 2 ^ retryCount st))]\<rparr>)"
  using assms by (simp add: responseError_def statusOf_def emit_def Let_def)

lemma network_give_up:
  assumes "\<not> isRateLimit err" "response err = None" "config err = Some req"
    and "retry req \<or> \<not> int (retryCount st) < maxRetries env"
  shows "responseError env rnd err st =
     (Reject (err\<lparr>message := ''Network error. Please check your internet connection.''\<rparr>),
      st\<lparr>retryCount := 0,
         effects := effects st @
           [ToastError (Lit ''Network error. Please check your internet connection.'')]\<rparr>)"
  using assms by (auto simp add: responseError_def statusOf_def emit_def giveUp_def Let_def)

lemma server_give_up:
  assumes "\<not> isRateLimit err" "response err = Some r" "500 \<le> status r" "config err = Some req"
    and "retry req \<or> \<not> int (retryCount st) < maxRetries env"
  shows "responseError env rnd err st =
     (Reject err,
      st\<lparr>retryCount := 0,
         effects := effects st @ [ToastError (Lit ''Server error. Please try again later.'')]\<rparr>)"
  using assms by (auto simp add: responseError_def statusOf_def emit_def giveUp_def Let_def)

subsection \<open>Retries after network and server errors\<close>

text \<open>
  Claim C1. A failure without response, or with a status of 500 or more, that is not the
  local rate-limit rejection, is retried exactly when \<open>_retry\<close> is unset on its request
  and \<open>retryCount\<close> is below \<open>maxRetries\<close>. The retry sets \<open>_retry\<close>, adds one to
  \<open>retryCount\<close> and waits \<open>baseDelay * 2 ^ (retryCount - 1)\<close> milliseconds, counted with
  the new value of \<open>retryCount\<close>, plus \<open>Math.random() * 1000\<close>, which lies in [0, 1000),
  when there is no response, and plus nothing when there is one. Otherwise the error is
  rejected and nothing is waited for.
\<close>

theorem C1_retry_decision:
  assumes "\<not> isRateLimit err" and "config err = Some req"
    and "response err = None \<or> (\<exists>r. response err = Some r \<and> 500 \<le> status r)"
    and "0 \<le> rnd" and "rnd < 1"
  shows
    "(let out = fst (responseError env rnd err st);
          st' = snd (responseError env rnd err st);
          jitter = (if response err = None then rnd * 1000 else 0)
      in if \<not> retry req \<and> int (retryCount st) < maxRetries env
         then out = Reissue (Some (req\<lparr>retry := True\<rparr>))
            \<and> retryCount st' = retryCount st + 1
            \<and> waits (effects st') = waits (effects st) @
                  [Num (of_int (baseDelay env) * 2 ^ (retryCount st' - 1) + jitter)]
            \<and> 0 \<le> jitter \<and> jitter < 1000
         else (\<exists>e. out = Reject e) \<and> waits (effects st') = waits (effects st))"
proof (cases "\<not> retry req \<and> int (retryCount st) < maxRetries env")
  case True
  show ?thesis
  proof (cases "response err")
    case None
    with True assms show ?thesis
      by (simp add: network_retry waits_append Let_def)
  next
    case (Some r)
    with assms have "500 \<le> status r" by simp
    with True Some assms show ?thesis
      by (simp add: server_retry waits_append Let_def)
  qed
next
  case False
  then have stop: "retry req \<or> \<not> int (retryCount st) < maxRetries env" by blast
  show ?thesis
  proof (cases "response err")
    case None
    with False stop assms show ?thesis
      by (simp add: network_give_up waits_append Let_def)
  next
    case (Some r)
    with assms have "500 \<le> status r" by simp
    with False stop Some assms show ?thesis
      by (simp add: server_give_up waits_append Let_def)
  qed
qed

theorem C1_retry_decision_witness:
  "\<not> isRateLimit (transportError dataX NoResponse)
   \<and> config (transportError dataX NoResponse) = Some dataX
   \<and> response (transportError dataX NoResponse) = None
   \<and> fst (responseError exampleEnv (1 / 2) (transportError dataX NoResponse) idle)
       = Reissue (Some (dataX\<lparr>retry := True\<rparr>))
   \<and> retryCount (snd (responseError exampleEnv (1 / 2) (transportError dataX NoResponse) idle)) = 1
   \<and> waits (effects (snd (responseError exampleEnv (1 / 2) (transportError dataX NoResponse) idle)))
       = [Num 1500]"
proof -
  have h1: "\<not> isRateLimit (transportError dataX NoResponse)"
    and h2: "config (transportError dataX NoResponse) = Some dataX"
    and h3: "response (transportError dataX NoResponse) = None"
    by (simp_all add: transportError_def)
  have h4: "response (transportError dataX NoResponse) = None
      \<or> (\<exists>r. response (transportError dataX NoResponse) = Some r \<and> 500 \<le> status r)"
    using h3 by simp
  have h5: "\<not> retry dataX \<and> int (retryCount idle) < maxRetries exampleEnv"
    by (simp add: dataX_def idle_def exampleEnv_def maxRetries_def orDefault_def)
  have b: "baseDelay exampleEnv = 1000" "retryCount idle = 0" "effects idle = []"
    by (simp_all add: exampleEnv_def baseDelay_def orDefault_def idle_def)
  from C1_retry_decision [where rnd = "1 / 2" and st = idle and env = exampleEnv, OF h1 h2 h4] h5
  show ?thesis using h1 h2 h3 b by (simp add: Let_def)
qed

subsection \<open>The request interceptor\<close>

text \<open>
  The interceptor rejects exactly when the endpoint is not critical and the purged queue
  holds \<open>maxRequests\<close> records; otherwise it records the request and tags it.
\<close>

lemma requestInterceptor_reject:
  assumes "\<not> list_ex (str_includes (orElse (url cfg) [])) criticalEndpoints"
    and "maxRequests \<le> length (filter (\<lambda>req. now - timestamp req < windowMs) (requestQueue st))"
  shows "requestInterceptor now sfx cfg st = (Inl rateLimitError, cleanupOldRequests now st)"
  using assms
  by (simp add: requestInterceptor_def shouldRateLimit_def cleanupOldRequests_def Let_def)

lemma requestInterceptor_admit:
  assumes "list_ex (str_includes (orElse (url cfg) [])) criticalEndpoints
     \<or> length (filter (\<lambda>req. now - timestamp req < windowMs) (requestQueue st)) < maxRequests"
  shows "\<exists>c. requestInterceptor now sfx cfg st =
            (Inr c, addToRequestQueue now (orElse (url cfg) []) (cleanupOldRequests now st))
       \<and> headers c ''X-Request-ID'' = Some (requestId now sfx)
       \<and> headers c ''Authorization'' =
            (case localStorage st ''auth_token'' of
               None \<Rightarrow> headers cfg ''Authorization''
             | Some token \<Rightarrow>
                 if token = [] then headers cfg ''Authorization'' else Some (''Bearer '' @ token))
       \<and> retry c = retry cfg \<and> url c = url cfg
       \<and> metadata c = Some \<lparr>startTime = now, meta_endpoint = orElse (url cfg) []\<rparr>"
  using assms
  by (auto simp add: requestInterceptor_def shouldRateLimit_def cleanupOldRequests_def
      addToRequestQueue_def Let_def split: option.splits)

lemma requestInterceptor_cases:
  "requestInterceptor now sfx cfg st = (res, st') \<Longrightarrow>
     (res = Inl rateLimitError \<and> st' = cleanupOldRequests now st
        \<and> \<not> list_ex (str_includes (orElse (url cfg) [])) criticalEndpoints
        \<and> maxRequests \<le> length (filter (\<lambda>req. now - timestamp req < windowMs) (requestQueue st)))
   \<or> ((\<exists>c. res = Inr c)
        \<and> st' = addToRequestQueue now (orElse (url cfg) []) (cleanupOldRequests now st)
        \<and> (list_ex (str_includes (orElse (url cfg) [])) criticalEndpoints
           \<or> length (filter (\<lambda>req. now - timestamp req < windowMs) (requestQueue st)) < maxRequests))"
  by (auto simp add: requestInterceptor_def shouldRateLimit_def Let_def cleanupOldRequests_def
      split: if_splits)

lemma rateLimitError_marked: "isRateLimit rateLimitError \<and> response rateLimitError = None"
  by (simp add: rateLimitError_def)

text \<open>A rejection of the interceptor ends the call in the error handler, with no call of
  the transport.\<close>

lemma rejected_attempt:
  assumes "requestInterceptor (at_now a) (at_rsuffix a) cfg st = (Inl e, st1)"
  shows "attemptOnce env a (Some cfg) st =
     (Done (Rejected rateLimitError),
      st1\<lparr>effects := effects st1 @
        [ToastError (Lit ''Too many requests. Please slow down and try again in a moment.'')]\<rparr>)"
proof -
  from requestInterceptor_cases [OF assms] have "e = rateLimitError" by auto
  with assms show ?thesis
    by (simp add: attemptOnce_def afterError_def local_rate_limit_step rateLimitError_marked)
qed

lemma dataX_noncritical: "\<not> list_ex (str_includes (orElse (url dataX) [])) criticalEndpoints"
  by (simp add: dataX_def orElse_def criticalEndpoints_def)

subsection \<open>Critical endpoints\<close>

text \<open>
  Claim C5. A request whose url contains \<open>/auth/login\<close>, \<open>/auth/refresh\<close> or
  \<open>/health\<close> is never rejected by the request interceptor, whatever the queue holds,
  and it is recorded: the queue after it is the purged queue followed by its record.
\<close>

theorem C5_critical_always_admitted:
  assumes "url cfg = Some u" and "critical \<in> set criticalEndpoints" and "str_includes u critical"
  shows "\<exists>cfg'. requestInterceptor now rsuffix cfg st =
     (Inr cfg',
      st\<lparr>requestQueue := filter (\<lambda>req. now - timestamp req < windowMs) (requestQueue st)
         @ [\<lparr>timestamp = now, endpoint = u\<rparr>]\<rparr>)"
proof -
  have "u \<noteq> []" using assms(2,3) by (auto simp: criticalEndpoints_def)
  with assms(1) have ep: "orElse (url cfg) [] = u" by (simp add: orElse_def)
  with assms(2,3) have "list_ex (str_includes (orElse (url cfg) [])) criticalEndpoints"
    by (auto simp: list_ex_iff)
  from requestInterceptor_admit [where now = now and sfx = rsuffix and st = st, OF disjI1, OF this]
  show ?thesis by (auto simp: ep addToRequestQueue_def cleanupOldRequests_def)
qed

theorem C5_critical_always_admitted_witness:
  "url login = Some ''/api/auth/login'' \<and> ''/auth/login'' \<in> set criticalEndpoints
   \<and> str_includes ''/api/auth/login'' ''/auth/login''
   \<and> length (requestQueue saturated) = maxRequests
   \<and> (\<exists>cfg'. requestInterceptor 2000 ''k3j9x0q1z'' login saturated =
        (Inr cfg',
         saturated\<lparr>requestQueue := requestQueue saturated
            @ [\<lparr>timestamp = 2000, endpoint = ''/api/auth/login''\<rparr>]\<rparr>))"
proof -
  have h1: "url login = Some ''/api/auth/login''" by (simp add: login_def)
  have h2: "''/auth/login'' \<in> set criticalEndpoints" by (simp add: criticalEndpoints_def)
  have h3: "str_includes ''/api/auth/login'' ''/auth/login''" by simp
  have q: "filter (\<lambda>req. 2000 - timestamp req < windowMs) (requestQueue saturated)
      = requestQueue saturated"
    by (simp add: saturated_def windowMs_def)
  from C5_critical_always_admitted [OF h1 h2 h3, of 2000 "''k3j9x0q1z''" saturated]
  show ?thesis using h1 h2 h3 by (simp add: q) (simp add: saturated_def)
qed

subsection \<open>The capacity of the window\<close>

text \<open>
  An admission at a time \<open>t\<close> in the window that ends at \<open>now\<close> keeps every record of
  that window and adds one; no record is stamped later than \<open>now\<close>.
\<close>

lemma admit_adds_recent:
  assumes "requestInterceptor t s c st = (Inr c', st')" and "t \<le> now" and "now - t < windowMs"
  shows "length (filter (\<lambda>r. now - timestamp r < windowMs) (requestQueue st'))
       = length (filter (\<lambda>r. now - timestamp r < windowMs) (requestQueue st)) + 1"
proof -
  from requestInterceptor_cases [OF assms(1)]
  have q: "requestQueue st' =
      filter (\<lambda>r. t - timestamp r < windowMs) (requestQueue st)
        @ [\<lparr>timestamp = t, endpoint = orElse (url c) []\<rparr>]"
    by (auto simp: addToRequestQueue_def cleanupOldRequests_def)
  have "filter (\<lambda>r. now - timestamp r < windowMs)
          (filter (\<lambda>r. t - timestamp r < windowMs) (requestQueue st))
      = filter (\<lambda>r. now - timestamp r < windowMs) (requestQueue st)"
    using assms(2) by (auto simp: filter_filter intro!: filter_cong)
  with q assms(3) show ?thesis by simp
qed

lemma admit_keeps_past:
  assumes "requestInterceptor t s c st = (Inr c', st')" and "t \<le> now"
    and "\<forall>r \<in> set (requestQueue st). timestamp r \<le> now"
  shows "\<forall>r \<in> set (requestQueue st'). timestamp r \<le> now"
  using requestInterceptor_cases [OF assms(1)] assms(2,3)
  by (auto simp: addToRequestQueue_def cleanupOldRequests_def)

lemma admitAll_recent:
  assumes "admitAll reqs st = Some st1"
    and "\<forall>r \<in> set reqs. fst r \<le> now \<and> now - fst r < windowMs"
    and "\<forall>r \<in> set (requestQueue st). timestamp r \<le> now"
  shows "length (filter (\<lambda>r. now - timestamp r < windowMs) (requestQueue st1))
           = length (filter (\<lambda>r. now - timestamp r < windowMs) (requestQueue st)) + length reqs
       \<and> (\<forall>r \<in> set (requestQueue st1). timestamp r \<le> now)"
  using assms
proof (induction reqs arbitrary: st)
  case Nil
  then show ?case by simp
next
  case (Cons a reqs)
  obtain t s c where a: "a = (t, s, c)" by (cases a) auto
  from Cons.prems(1) a obtain c' st' where
    step: "requestInterceptor t s c st = (Inr c', st')" and rest: "admitAll reqs st' = Some st1"
    by (auto split: prod.splits sum.splits)
  from Cons.prems(2) a have t: "t \<le> now" "now - t < windowMs" by auto
  from Cons.prems(2) have all: "\<forall>r \<in> set reqs. fst r \<le> now \<and> now - fst r < windowMs" by simp
  have past: "\<forall>r \<in> set (requestQueue st'). timestamp r \<le> now"
    by (rule admit_keeps_past [OF step t(1) Cons.prems(3)])
  from Cons.IH [OF rest all past] admit_adds_recent [OF step t]
  show ?case by simp
qed

text \<open>Requests at one instant are all admitted as long as the queue has room for them.\<close>

lemma admitAll_replicate:
  assumes "\<forall>r \<in> set (requestQueue st). t - timestamp r < windowMs"
    and "length (requestQueue st) + n \<le> maxRequests"
  shows "admitAll (replicate n (t, s, c)) st =
     Some (st\<lparr>requestQueue := requestQueue st
        @ replicate n \<lparr>timestamp = t, endpoint = orElse (url c) []\<rparr>\<rparr>)"
  using assms
proof (induction n arbitrary: st)
  case 0
  then show ?case by simp
next
  case (Suc n)
  have keep: "filter (\<lambda>r. t - timestamp r < windowMs) (requestQueue st) = requestQueue st"
    using Suc.prems(1) by (simp add: filter_id_conv)
  with Suc.prems(2) have
    "length (filter (\<lambda>r. t - timestamp r < windowMs) (requestQueue st)) < maxRequests" by simp
  from requestInterceptor_admit [where sfx = s and cfg = c, OF disjI2, OF this]
  obtain c' where step: "requestInterceptor t s c st =
      (Inr c', addToRequestQueue t (orElse (url c) []) (cleanupOldRequests t st))"
    by blast
  let ?st' = "addToRequestQueue t (orElse (url c) []) (cleanupOldRequests t st)"
  have q': "requestQueue ?st' = requestQueue st @ [\<lparr>timestamp = t, endpoint = orElse (url c) []\<rparr>]"
    by (simp add: addToRequestQueue_def cleanupOldRequests_def keep)
  have "\<forall>r \<in> set (requestQueue ?st'). t - timestamp r < windowMs"
    using Suc.prems(1) by (simp add: q' windowMs_def)
  moreover have "length (requestQueue ?st') + n \<le> maxRequests"
    using Suc.prems(2) by (simp add: q')
  ultimately have "admitAll (replicate n (t, s, c)) ?st' =
     Some (?st'\<lparr>requestQueue := requestQueue ?st'
        @ replicate n \<lparr>timestamp = t, endpoint = orElse (url c) []\<rparr>\<rparr>)"
    by (rule Suc.IH)
  with step show ?case
    by (simp add: q' addToRequestQueue_def cleanupOldRequests_def keep replicate_app_Cons_same)
qed

lemma burst_admitted: "admitAll burst idle = Some saturated"
proof -
  have "admitAll (replicate maxRequests (1000, ''k3j9x0q1z'', dataX)) idle =
     Some (idle\<lparr>requestQueue := requestQueue idle
        @ replicate maxRequests \<lparr>timestamp = 1000, endpoint = orElse (url dataX) []\<rparr>\<rparr>)"
    by (rule admitAll_replicate) (simp_all add: idle_def)
  then show ?thesis
    by (simp add: burst_def saturated_def idle_def dataX_def orElse_def)
qed

text \<open>
  Claim C6. Take \<open>maxRequests\<close> = 200 requests that the request interceptor admitted one
  after the other, each at a time in the \<open>windowMs\<close> = 60000 ms that end at \<open>now\<close>,
  from a queue with no record stamped after \<open>now\<close>. Then a request to an endpoint that
  is not critical is rejected at \<open>now\<close> with the error marked \<open>isRateLimit\<close>, the call
  ends with that error and the transport is not called. Once \<open>windowMs\<close> have passed
  since \<open>now\<close>, the same request is admitted.
\<close>

theorem C6_window_capacity:
  assumes noncritical: "\<not> list_ex (str_includes (orElse (url cfg) [])) criticalEndpoints"
    and admitted: "admitAll reqs st = Some st1"
    and count: "length reqs = maxRequests"
    and recent: "\<forall>r \<in> set reqs. fst r \<le> now \<and> now - fst r < windowMs"
    and past: "\<forall>r \<in> set (requestQueue st). timestamp r \<le> now"
    and a: "at_now a = now"
    and elapsed: "now + windowMs \<le> later"
  shows "fst (requestInterceptor now rsuffix cfg st1) = Inl rateLimitError
       \<and> isRateLimit rateLimitError
       \<and> fst (attemptOnce env a (Some cfg) st1) = Done (Rejected rateLimitError)
       \<and> sends (effects (snd (attemptOnce env a (Some cfg) st1))) = sends (effects st1)
       \<and> (\<exists>c. fst (requestInterceptor later rsuffix' cfg
                        (snd (requestInterceptor now rsuffix cfg st1))) = Inr c)"
proof -
  from admitAll_recent [OF admitted recent past] count
  have full: "maxRequests \<le> length (filter (\<lambda>r. now - timestamp r < windowMs) (requestQueue st1))"
    and old: "\<forall>r \<in> set (requestQueue st1). timestamp r \<le> now"
    by simp_all
  have rej: "\<And>sfx. requestInterceptor now sfx cfg st1 = (Inl rateLimitError, cleanupOldRequests now st1)"
    by (rule requestInterceptor_reject [OF noncritical full])
  have att: "attemptOnce env a (Some cfg) st1 =
     (Done (Rejected rateLimitError),
      (cleanupOldRequests now st1)\<lparr>effects := effects (cleanupOldRequests now st1) @
        [ToastError (Lit ''Too many requests. Please slow down and try again in a moment.'')]\<rparr>)"
    by (rule rejected_attempt) (simp add: a rej)
  have again: "\<exists>c. fst (requestInterceptor later sfx' cfg (cleanupOldRequests now st1)) = Inr c"
    for sfx'
  proof -
    have "filter (\<lambda>r. later - timestamp r < windowMs) (requestQueue (cleanupOldRequests now st1)) = []"
      using old elapsed by (auto simp: cleanupOldRequests_def filter_empty_conv)
    then have "length (filter (\<lambda>r. later - timestamp r < windowMs)
        (requestQueue (cleanupOldRequests now st1))) < maxRequests"
      by (simp add: maxRequests_def)
    from requestInterceptor_admit [where sfx = sfx' and cfg = cfg, OF disjI2, OF this]
    show ?thesis by auto
  qed
  show ?thesis
    using rej att again
    by (simp add: rateLimitError_marked sends_append cleanupOldRequests_def)
qed

theorem C6_window_capacity_witness:
  "admitAll burst idle = Some saturated
   \<and> length burst = maxRequests
   \<and> fst (requestInterceptor 2000 ''k3j9x0q1z'' dataX saturated) = Inl rateLimitError
   \<and> fst (attemptOnce exampleEnv (netFail 2000) (Some dataX) saturated) = Done (Rejected rateLimitError)
   \<and> sends (effects (snd (attemptOnce exampleEnv (netFail 2000) (Some dataX) saturated))) = 0
   \<and> (\<exists>c. fst (requestInterceptor 62000 ''k3j9x0q1z'' dataX
              (snd (requestInterceptor 2000 ''k3j9x0q1z'' dataX saturated))) = Inr c)"
proof -
  have h3: "length burst = maxRequests" by (simp add: burst_def)
  have h4: "\<forall>r \<in> set burst. fst r \<le> 2000 \<and> 2000 - fst r < windowMs"
    by (simp add: burst_def windowMs_def)
  have h5: "\<forall>r \<in> set (requestQueue idle). timestamp r \<le> 2000" by (simp add: idle_def)
  have h6: "at_now (netFail 2000) = 2000" by (simp add: netFail_def)
  have h7: "2000 + windowMs \<le> 62000" by (simp add: windowMs_def)
  have e: "effects saturated = []" by (simp add: saturated_def idle_def)
  from C6_window_capacity [OF dataX_noncritical burst_admitted h3 h4 h5 h6 h7,
      where rsuffix = "''k3j9x0q1z''" and rsuffix' = "''k3j9x0q1z''" and env = exampleEnv]
  show ?thesis using burst_admitted h3 e by simp
qed

subsection \<open>Reading a \<open>retry-after\<close> header\<close>

text \<open>
  Every code unit of the decimal numeral of \<open>n\<close> is a decimal digit, and the digits
  have the value \<open>n\<close>.
\<close>

lemma decimal_digits:
  "c \<in> set (decimal n) \<Longrightarrow> \<exists>d::nat. d < 10 \<and> c = char_of (48 + d)"
proof (induction n rule: decimal.induct)
  case (1 n)
  show ?case
  proof (cases "n < 10")
    case True
    with "1.prems" show ?thesis by (subst (asm) decimal.simps) auto
  next
    case False
    from "1.prems" have "c \<in> set (decimal (n div 10)) \<or> c = char_of (48 + n mod 10)"
      by (subst (asm) decimal.simps) (auto simp add: False)
    then show ?thesis
    proof
      assume "c \<in> set (decimal (n div 10))"
      with "1.IH" False show ?thesis by simp
    next
      assume "c = char_of (48 + n mod 10)"
      moreover have "n mod 10 < 10" by simp
      ultimately show ?thesis by blast
    qed
  qed
qed

lemma decimal_not_empty: "decimal n \<noteq> []"
  by (subst decimal.simps) simp

lemma utf16_decimal_digits:
  assumes "u \<in> set (utf16 (decimal n))"
  shows "48 \<le> u \<and> u \<le> 57"
proof -
  from assms obtain c where c: "c \<in> set (decimal n)" "u = of_char c"
    by (auto simp: utf16_def)
  from decimal_digits [OF c(1)] obtain d :: nat where "d < 10" "c = char_of (48 + d)" by blast
  with c(2) show ?thesis by simp
qed

lemma digit_facts:
  assumes "48 \<le> u \<and> u \<le> 57"
  shows "digitValue u = Some (u - 48)" and "isDigitIn 10 u" and "\<not> isWhiteSpace u"
    and "u \<noteq> 45" and "u \<noteq> 43" and "u \<noteq> 120" and "u \<noteq> 88"
  using assms by (auto simp: digitValue_def isDigitIn_def isWhiteSpace_def)

lemma digitsValue_snoc:
  "digitsValue radix (ds @ [u]) =
     digitsValue radix ds * radix + (case digitValue u of None \<Rightarrow> 0 | Some d \<Rightarrow> d)"
  by (simp add: digitsValue_def)

lemma digitsValue_decimal: "digitsValue 10 (utf16 (decimal n)) = n"
proof (induction n rule: decimal.induct)
  case (1 n)
  show ?case
  proof (cases "n < 10")
    case True
    then have "utf16 (decimal n) = [48 + n]"
      by (subst decimal.simps) (simp add: utf16_def)
    with True show ?thesis by (simp add: digitsValue_def digitValue_def)
  next
    case False
    then have d: "utf16 (decimal n) = utf16 (decimal (n div 10)) @ [48 + n mod 10]"
      by (subst decimal.simps) (simp add: utf16_def)
    have "digitValue (48 + n mod 10) = Some (n mod 10)"
      by (simp add: digitValue_def)
    with "1.IH" False show ?thesis
      by (simp add: d digitsValue_snoc)
  qed
qed

lemma digitsValue_zero: "digitsValue 10 (48 # ds) = digitsValue 10 ds"
  by (simp add: digitsValue_def digitValue_def)

lemma digitsValue_zeros: "digitsValue 10 (replicate k 48 @ ds) = digitsValue 10 ds"
  by (induction k) (simp_all add: digitsValue_zero)

text \<open>
  A decimal numeral, written with any number of leading zeros, after any white space and
  an optional sign, is read as the integer it denotes.
\<close>

lemma parseInt_skips_white_space:
  assumes "\<forall>u \<in> set ws. isWhiteSpace u"
  shows "parseInt (ws @ s) = parseInt s"
proof -
  have "dropWhile isWhiteSpace (ws @ s) = dropWhile isWhiteSpace s"
    using assms by (simp add: dropWhile_append2)
  then show ?thesis by (simp add: parseInt_def)
qed

lemma parseInt_digits:
  assumes ds: "ds = replicate k 48 @ utf16 (decimal n)"
  shows "parseInt ds = toNumber (int n)"
    and "parseInt (43 # ds) = toNumber (int n)"
    and "parseInt (45 # ds) = toNumber (- int n)"
proof -
  have rng: "48 \<le> u \<and> u \<le> 57" if "u \<in> set ds" for u
    using that utf16_decimal_digits [of u n] by (auto simp: ds)
  have digits: "isDigitIn 10 u \<and> \<not> isWhiteSpace u \<and> u \<noteq> 45 \<and> u \<noteq> 43 \<and> u \<noteq> 120 \<and> u \<noteq> 88"
    if "u \<in> set ds" for u
    using digit_facts(2-7) [OF rng [OF that]] by simp
  have ne: "ds \<noteq> []" by (simp add: ds utf16_def decimal_not_empty)
  then have hd: "hd ds \<in> set ds" by simp
  have dv: "digitsValue 10 ds = n" by (simp add: ds digitsValue_zeros digitsValue_decimal)
  have nohex: "\<not> prefix [48, 120] ds" "\<not> prefix [48, 88] ds"
  proof -
    have "\<not> prefix [48, x] ds" if "x = 120 \<or> x = 88" for x
    proof
      assume "prefix [48, x] ds"
      then obtain zs where "ds = [48, x] @ zs" by (auto simp: prefix_def)
      then have "x \<in> set ds" by simp
      from digits [OF this] that show False by blast
    qed
    then show "\<not> prefix [48, 120] ds" "\<not> prefix [48, 88] ds" by simp_all
  qed
  have all: "takeWhile (isDigitIn 10) ds = ds"
    using digits by (simp add: takeWhile_eq_all_conv)
  have plain: "dropWhile isWhiteSpace ds = ds"
    using digits [OF hd] by (simp add: dropWhile_eq_self_iff)
  have signs: "\<not> isWhiteSpace 43" "\<not> isWhiteSpace 45" by (simp_all add: isWhiteSpace_def)
  show "parseInt ds = toNumber (int n)"
    using digits [OF hd] ne nohex by (simp add: parseInt_def plain all dv Let_def)
  show "parseInt (43 # ds) = toNumber (int n)"
    using ne nohex by (simp add: parseInt_def signs all dv Let_def)
  show "parseInt (45 # ds) = toNumber (- int n)"
    using ne nohex by (simp add: parseInt_def signs all dv Let_def)
qed

lemma parseInt_numeral:
  assumes ws: "\<forall>u \<in> set ws. isWhiteSpace u"
    and sign: "sign = [] \<or> sign = [43] \<or> sign = [45]"
  shows "parseInt (ws @ sign @ replicate k 48 @ utf16 (decimal n))
       = toNumber ((if sign = [45] then - 1 else 1) * int n)"
  using sign parseInt_digits [OF refl, of k n]
  by (auto simp: parseInt_skips_white_space [OF ws])

text \<open>The delay of such a header is exact as long as the product stays within 2^53.\<close>

lemma retryAfterDelay_absent: "retryAfterDelay None = Num 5000"
  by (simp add: retryAfterDelay_def)

lemma retryAfterDelay_numeral:
  assumes ws: "\<forall>u \<in> set ws. isWhiteSpace u"
    and sign: "sign = [] \<or> sign = [43] \<or> sign = [45]"
    and exact: "real n * 1000 \<le> 2 ^ 53"
  shows "retryAfterDelay (Some (ws @ sign @ replicate k 48 @ utf16 (decimal n)))
       = Num ((if sign = [45] then - 1 else 1) * real n * 1000)"
proof -
  define s where "s = ws @ sign @ replicate k 48 @ utf16 (decimal n)"
  have ne: "s \<noteq> []" by (simp add: s_def utf16_def decimal_not_empty)
  have "real n \<le> 2 ^ 53" using exact by simp
  then have "real n \<le> real (2 ^ 53)" by simp
  then have small: "int n \<le> 2 ^ 53" by (simp only: of_nat_le_iff) simp
  have p: "parseInt s = Num ((if sign = [45] then - 1 else 1) * real n)"
    unfolding s_def parseInt_numeral [OF ws sign] using small by (simp add: toNumber_def)
  have "retryAfterDelay (Some s) = Num ((if sign = [45] then - 1 else 1) * real n * 1000)"
    using exact ne by (simp add: retryAfterDelay_def p)
  then show ?thesis by (simp only: s_def)
qed

subsection \<open>Answers with status 429\<close>

lemma sliceLast_length: "length (sliceLast n xs) \<le> n"
  by (simp add: sliceLast_def)

lemma attempt_rate_limited:
  assumes room: "length (requestQueue st) < maxRequests"
    and res: "at_result a = Responded r" and code: "status r = 429"
  shows "\<exists>c st'. attemptOnce env a (Some cfg) st = (Again (Some c), st')
       \<and> retry c = retry cfg \<and> url c = url cfg
       \<and> retryCount st' = retryCount st
       \<and> localStorage st' = localStorage st
       \<and> waits (effects st') = waits (effects st) @ [retryAfterDelay (retry_after r)]
       \<and> sends (effects st') = sends (effects st) + 1
       \<and> length (requestQueue st') \<le> 50"
proof -
  have
    "length (filter (\<lambda>req. at_now a - timestamp req < windowMs) (requestQueue st)) < maxRequests"
    by (rule le_less_trans [OF length_filter_le room])
  from requestInterceptor_admit [where sfx = "at_rsuffix a" and cfg = cfg, OF disjI2, OF this]
  obtain c where
    step: "requestInterceptor (at_now a) (at_rsuffix a) cfg st =
      (Inr c, addToRequestQueue (at_now a) (orElse (url cfg) []) (cleanupOldRequests (at_now a) st))"
    and c: "retry c = retry cfg" "url c = url cfg"
    by blast
  let ?err = "transportError c (Responded r)"
  have err: "\<not> isRateLimit ?err" "response ?err = Some r" "config ?err = Some c"
    by (simp_all add: transportError_def)
  have nf: "\<not> fulfilled (Responded r)" by (simp add: fulfilled_def code)
  show ?thesis
    using c
    by (simp add: attemptOnce_def step res nf afterError_def
        rate_limit_server_step [OF err(1,2) code] err(3) emit_def waits_append sends_append
        addToRequestQueue_def cleanupOldRequests_def sliceLast_length)
qed

lemma rate_limited_run:
  assumes "\<forall>a \<in> set as. \<exists>r. at_result a = Responded r \<and> status r = 429"
    and "length (requestQueue st) < maxRequests"
  shows "\<exists>c st'. apiClient env as (Some cfg) st = (Pending (Some c), st')
       \<and> retry c = retry cfg \<and> url c = url cfg
       \<and> retryCount st' = retryCount st
       \<and> localStorage st' = localStorage st
       \<and> waits (effects st') = waits (effects st) @
            map (\<lambda>a. case at_result a of
                        Responded r \<Rightarrow> retryAfterDelay (retry_after r) | NoResponse \<Rightarrow> NaN) as
       \<and> sends (effects st') = sends (effects st) + length as
       \<and> length (requestQueue st') < maxRequests"
  using assms
proof (induction as arbitrary: cfg st)
  case Nil
  then show ?case by simp
next
  case (Cons a as)
  from Cons.prems(1) obtain r where r: "at_result a = Responded r" "status r = 429" by auto
  from attempt_rate_limited [OF Cons.prems(2) r, of env cfg]
  obtain c1 st1 where
    step: "attemptOnce env a (Some cfg) st = (Again (Some c1), st1)"
    and c1: "retry c1 = retry cfg" "url c1 = url cfg"
    and st1: "retryCount st1 = retryCount st" "localStorage st1 = localStorage st"
      "waits (effects st1) = waits (effects st) @ [retryAfterDelay (retry_after r)]"
      "sends (effects st1) = sends (effects st) + 1"
      "length (requestQueue st1) \<le> 50"
    by blast
  have room: "length (requestQueue st1) < maxRequests"
    using st1(5) by (simp add: maxRequests_def)
  from Cons.prems(1) have rest: "\<forall>a \<in> set as. \<exists>r. at_result a = Responded r \<and> status r = 429"
    by simp
  from Cons.IH [OF rest room, of c1]
  obtain c st' where
    run: "apiClient env as (Some c1) st1 = (Pending (Some c), st')"
    and c: "retry c = retry c1" "url c = url c1"
    and st': "retryCount st' = retryCount st1" "localStorage st' = localStorage st1"
      "waits (effects st') = waits (effects st1) @
            map (\<lambda>a. case at_result a of
                        Responded r \<Rightarrow> retryAfterDelay (retry_after r) | NoResponse \<Rightarrow> NaN) as"
      "sends (effects st') = sends (effects st1) + length as"
      "length (requestQueue st') < maxRequests"
    by blast
  show ?case
    using step run c c1 st1 st' r by simp
qed

lemma sliceLast_suffix: "suffix (sliceLast n xs) xs"
  by (simp add: sliceLast_def suffix_drop)

lemma sliceLast_min: "length (sliceLast n xs) = min n (length xs)"
  by (simp add: sliceLast_def)

lemmas run_defs =
  attemptOnce_def requestInterceptor_def shouldRateLimit_def cleanupOldRequests_def
  addToRequestQueue_def criticalEndpoints_def orElse_def maxRequests_def windowMs_def
  emit_def removeItem_def afterError_def responseError_def transportError_def statusOf_def
  maxRetries_def baseDelay_def orDefault_def giveUp_def fulfilled_def responseSuccess_def
  endpointOf_def sliceLast_def rateLimitError_def Let_def

lemmas parse_defs =
  retryAfterDelay_def parseInt_def isWhiteSpace_def digitValue_def isDigitIn_def digitsValue_def
  toNumber_def utf16_def

lemmas input_defs = exampleEnv_def idle_def dataX_def netFail_def answered_def

lemma throttled_answers: "\<forall>a \<in> set throttled. \<exists>r. at_result a = Responded r \<and> status r = 429"
  by (simp add: throttled_def answered_def)

text \<open>
  Claim C4. A call whose attempts are all answered with status 429 is re-issued after
  each of them, however many there are and whatever \<open>retryCount\<close>, \<open>maxRetries\<close> and
  \<open>_retry\<close> are: after the attempts given the call is waiting for the answer to one
  more, the transport was called once per attempt, and before each re-issue the handler
  waited the delay of that answer. The handler re-issues \<open>error.config\<close> and cuts the
  queue down to its last 50 records (all of it when it holds fewer). The delay is 5000
  ms without a \<open>retry-after\<close> header. With a header that is an integer numeral, that
  is white space, an optional sign and decimal digits that denote \<open>n\<close>, leading zeros
  included, the delay is the integer times 1000 ms, as long as \<open>n * 1000\<close> is at most
  2^53, the range in which doubles hold every integer. The first attempt is assumed to
  find room in the queue; the later ones do, since the queue was cut to 50 records.
\<close>

theorem C4_rate_limit_server_unbounded:
  assumes answers: "\<forall>a \<in> set as. \<exists>r. at_result a = Responded r \<and> status r = 429"
    and room: "length (requestQueue st) < maxRequests"
    and err: "\<not> isRateLimit err" "response err = Some r" "status r = 429"
    and ws: "\<forall>u \<in> set ws. isWhiteSpace u"
    and sign: "sign = [] \<or> sign = [43] \<or> sign = [45]"
    and exact: "real n * 1000 \<le> 2 ^ 53"
  shows "(\<exists>c st'. apiClient env as (Some cfg) st = (Pending (Some c), st')
            \<and> waits (effects st') = waits (effects st) @
                 map (\<lambda>a. case at_result a of
                             Responded r \<Rightarrow> retryAfterDelay (retry_after r) | NoResponse \<Rightarrow> NaN) as
            \<and> sends (effects st') = sends (effects st) + length as)
       \<and> fst (responseError env rnd err st0) = Reissue (config err)
       \<and> waits (effects (snd (responseError env rnd err st0)))
            = waits (effects st0) @ [retryAfterDelay (retry_after r)]
       \<and> requestQueue (snd (responseError env rnd err st0)) = sliceLast 50 (requestQueue st0)
       \<and> suffix (sliceLast 50 (requestQueue st0)) (requestQueue st0)
       \<and> length (sliceLast 50 (requestQueue st0)) = min 50 (length (requestQueue st0))
       \<and> retryAfterDelay None = Num 5000
       \<and> retryAfterDelay (Some (ws @ sign @ replicate k 48 @ utf16 (decimal n)))
            = Num ((if sign = [45] then - 1 else 1) * real n * 1000)"
proof -
  from rate_limited_run [OF answers room, of env cfg]
  have run: "\<exists>c st'. apiClient env as (Some cfg) st = (Pending (Some c), st')
            \<and> waits (effects st') = waits (effects st) @
                 map (\<lambda>a. case at_result a of
                             Responded r \<Rightarrow> retryAfterDelay (retry_after r) | NoResponse \<Rightarrow> NaN) as
            \<and> sends (effects st') = sends (effects st) + length as"
    by blast
  have step: "responseError env rnd err st0 =
     (Reissue (config err),
      st0\<lparr>requestQueue := sliceLast 50 (requestQueue st0),
          effects := effects st0 @
           [ToastError (RateLimitRetrying (retryAfterDelay (retry_after r))),
            Wait (retryAfterDelay (retry_after r))]\<rparr>)"
    by (rule rate_limit_server_step [OF err])
  have delay: "retryAfterDelay (Some (ws @ sign @ replicate k 48 @ utf16 (decimal n)))
            = Num ((if sign = [45] then - 1 else 1) * real n * 1000)"
    by (rule retryAfterDelay_numeral [OF ws sign exact])
  show ?thesis
    using run
    by (simp only: step delay retryAfterDelay_absent sliceLast_suffix sliceLast_min)
       (simp add: waits_append)
qed

theorem C4_rate_limit_server_unbounded_witness:
  "int (length throttled) = maxRetries exampleEnv + 5
   \<and> length (requestQueue halfSpent) < maxRequests
   \<and> isWhiteSpace 0xA0
   \<and> (case fst (apiClient exampleEnv throttled (Some dataX) halfSpent) of
         Pending c \<Rightarrow> True | _ \<Rightarrow> False)
   \<and> sends (effects (snd (apiClient exampleEnv throttled (Some dataX) halfSpent))) = 8
   \<and> waits (effects (snd (apiClient exampleEnv throttled (Some dataX) halfSpent)))
       = [Num 2000, Num 5000, Num 7000, Num 5000, Num 7000, Num 5000, Num 2000, Num 5000]
   \<and> retryAfterDelay (Some (0xA0 # 45 # utf16 ''007'')) = Num (- 7000)"
proof -
  have room: "length (requestQueue halfSpent) < maxRequests"
    by (simp add: halfSpent_def idle_def maxRequests_def)
  have len: "int (length throttled) = maxRetries exampleEnv + 5"
    by (simp add: throttled_def exampleEnv_def maxRetries_def orDefault_def)
  let ?err = "transportError dataX (at_result (answered 1000 429 None))"
  have err: "\<not> isRateLimit ?err"
    "response ?err = Some \<lparr>status = 429, retry_after = None, data_error = None, data_message = None\<rparr>"
    "status \<lparr>status = 429, retry_after = None, data_error = None, data_message = None\<rparr> = 429"
    by (simp_all add: transportError_def answered_def)
  have ws: "\<forall>u \<in> set [0xA0]. isWhiteSpace u" by (simp add: isWhiteSpace_def)
  have sign: "[45] = [] \<or> [45] = [43] \<or> [45] = [45::nat]" by simp
  have exact: "real 7 * 1000 \<le> 2 ^ 53" by simp
  have seven: "[0xA0] @ [45] @ replicate 2 48 @ utf16 (decimal 7) = 0xA0 # 45 # utf16 ''007''"
    by (simp add: utf16_def decimal.simps numeral_2_eq_2)
  have e: "effects halfSpent = []" by (simp add: halfSpent_def idle_def)
  have d: "map (\<lambda>a. case at_result a of
                       Responded r \<Rightarrow> retryAfterDelay (retry_after r) | NoResponse \<Rightarrow> NaN) throttled
      = [Num 2000, Num 5000, Num 7000, Num 5000, Num 7000, Num 5000, Num 2000, Num 5000]"
    by (simp add: throttled_def answered_def parse_defs)
  from C4_rate_limit_server_unbounded [OF throttled_answers room err ws sign exact,
      where env = exampleEnv and cfg = dataX and k = 2]
  obtain c st' where run: "apiClient exampleEnv throttled (Some dataX) halfSpent = (Pending (Some c), st')"
    and w: "waits (effects st') = waits (effects halfSpent) @
           map (\<lambda>a. case at_result a of
                       Responded r \<Rightarrow> retryAfterDelay (retry_after r) | NoResponse \<Rightarrow> NaN) throttled"
    and n: "sends (effects st') = sends (effects halfSpent) + length throttled"
    and h: "retryAfterDelay (Some ([0xA0] @ [45] @ replicate 2 48 @ utf16 (decimal 7)))
          = Num ((if [45] = [45::nat] then - 1 else 1) * real 7 * 1000)"
    by blast
  have neg: "retryAfterDelay (Some (0xA0 # 45 # utf16 ''007'')) = Num (- 7000)"
    using h unfolding seven by simp
  have l8: "length throttled = 8" by (simp add: throttled_def)
  have nbsp: "isWhiteSpace 0xA0" by (simp add: isWhiteSpace_def)
  show ?thesis
    using room len nbsp neg by (simp add: run w n e d l8)
qed

text \<open>
  Claim C10. The handler leaves \<open>retryCount\<close> as it is when the status is 429, and so
  does a whole call whose attempts are all answered with status 429: the counter is
  neither incremented nor reset.
\<close>

theorem C10_retry_count_untouched:
  assumes err: "\<not> isRateLimit err" "statusOf err = Some 429"
    and answers: "\<forall>a \<in> set as. \<exists>r. at_result a = Responded r \<and> status r = 429"
    and room: "length (requestQueue st) < maxRequests"
  shows "retryCount (snd (responseError env rnd err st0)) = retryCount st0
       \<and> retryCount (snd (apiClient env as (Some cfg) st)) = retryCount st"
proof -
  from err(2) obtain r where r: "response err = Some r" "status r = 429"
    by (auto simp: statusOf_def)
  have one: "retryCount (snd (responseError env rnd err st0)) = retryCount st0"
    by (simp add: rate_limit_server_step [OF err(1) r])
  from rate_limited_run [OF answers room, of env cfg]
  have "retryCount (snd (apiClient env as (Some cfg) st)) = retryCount st" by auto
  with one show ?thesis by simp
qed

theorem C10_retry_count_untouched_witness:
  "retryCount halfSpent = 2
   \<and> statusOf (transportError dataX (at_result (answered 1000 429 None))) = Some 429
   \<and> retryCount (snd (responseError exampleEnv 0
        (transportError dataX (at_result (answered 1000 429 None))) halfSpent)) = 2
   \<and> retryCount (snd (apiClient exampleEnv throttled (Some dataX) halfSpent)) = 2"
proof -
  have room: "length (requestQueue halfSpent) < maxRequests"
    by (simp add: halfSpent_def idle_def maxRequests_def)
  let ?err = "transportError dataX (at_result (answered 1000 429 None))"
  have err: "\<not> isRateLimit ?err" "statusOf ?err = Some 429"
    by (simp_all add: transportError_def answered_def statusOf_def)
  have rc: "retryCount halfSpent = 2" by (simp add: halfSpent_def)
  from C10_retry_count_untouched [OF err throttled_answers room,
      where env = exampleEnv and cfg = dataX and rnd = 0 and ?st0.0 = halfSpent]
  show ?thesis using err(2) by (simp add: rc)
qed

subsection \<open>One retry for each request\<close>

text \<open>An attempt that finds room in the queue and gets no response.\<close>

lemma attempt_no_response:
  assumes room: "length (requestQueue st) < maxRequests" and res: "at_result a = NoResponse"
  shows "\<exists>c. retry c = retry cfg
       \<and> attemptOnce env a (Some cfg) st =
           afterError env (at_rnd a) (transportError c NoResponse)
             (emit (Send c)
               (addToRequestQueue (at_now a) (orElse (url cfg) []) (cleanupOldRequests (at_now a) st)))"
proof -
  have
    "length (filter (\<lambda>req. at_now a - timestamp req < windowMs) (requestQueue st)) < maxRequests"
    by (rule le_less_trans [OF length_filter_le room])
  from requestInterceptor_admit [where sfx = "at_rsuffix a" and cfg = cfg, OF disjI2, OF this]
  obtain c where
    step: "requestInterceptor (at_now a) (at_rsuffix a) cfg st =
      (Inr c, addToRequestQueue (at_now a) (orElse (url cfg) []) (cleanupOldRequests (at_now a) st))"
    and c: "retry c = retry cfg"
    by blast
  show ?thesis
    using c by (auto simp add: attemptOnce_def step res Let_def)
qed

text \<open>
  Claim C2, as the code has it. With \<open>apiRetryAttempts\<close> = 3 and \<open>apiRetryDelay\<close> =
  1000, a fresh request sent from an empty queue with \<open>retryCount\<close> = 0 that gets no
  response is retried once, after 1000 ms plus a jitter in [0, 1000). The re-issued
  request carries \<open>_retry\<close>, so when it gets no response either the error is rejected
  to the caller as a network error and \<open>retryCount\<close> is back to 0: the transport was
  called twice, and whatever it would have answered to further attempts is never asked for.
\<close>

theorem C2_one_retry_per_request:
  assumes env: "apiRetryAttempts env = Some 3" "apiRetryDelay env = Some 1000"
    and st: "retryCount st = 0" "requestQueue st = []"
    and cfg: "\<not> retry cfg"
    and a1: "at_result a1 = NoResponse" "0 \<le> at_rnd a1" "at_rnd a1 < 1"
    and a2: "at_result a2 = NoResponse"
  shows "\<exists>e st'. apiClient env (a1 # a2 # rest) (Some cfg) st = (Rejected e, st')
       \<and> response e = None \<and> \<not> isRateLimit e
       \<and> sends (effects st') = sends (effects st) + 2
       \<and> waits (effects st') = waits (effects st) @ [Num (1000 + at_rnd a1 * 1000)]
       \<and> 1000 \<le> 1000 + at_rnd a1 * 1000 \<and> 1000 + at_rnd a1 * 1000 < 2000
       \<and> retryCount st' = 0"
proof -
  have mr: "maxRetries env = 3" and bd: "baseDelay env = 1000"
    using env by (simp_all add: maxRetries_def baseDelay_def orDefault_def)
  have room: "length (requestQueue st) < maxRequests"
    using st(2) by (simp add: maxRequests_def)
  from attempt_no_response [OF room a1(1), of cfg env]
  obtain c1 where c1: "retry c1 = retry cfg"
    and at1: "attemptOnce env a1 (Some cfg) st =
           afterError env (at_rnd a1) (transportError c1 NoResponse)
             (emit (Send c1)
               (addToRequestQueue (at_now a1) (orElse (url cfg) []) (cleanupOldRequests (at_now a1) st)))"
    by blast
  define s1 where "s1 = emit (Send c1)
               (addToRequestQueue (at_now a1) (orElse (url cfg) []) (cleanupOldRequests (at_now a1) st))"
  have s1: "retryCount s1 = 0" "effects s1 = effects st @ [Send c1]" "length (requestQueue s1) = 1"
    using st by (simp_all add: s1_def emit_def addToRequestQueue_def cleanupOldRequests_def)
  let ?e1 = "transportError c1 NoResponse"
  have e1: "\<not> isRateLimit ?e1" "response ?e1 = None" "config ?e1 = Some c1"
    by (simp_all add: transportError_def)
  have go: "\<not> retry c1" "int (retryCount s1) < maxRetries env"
    using c1 cfg s1(1) mr by simp_all
  define s2 where "s2 = s1\<lparr>retryCount := retryCount s1 + 1,
         effects := effects s1 @
           [ToastInfo (ConnectionRetrying (retryCount s1 + 1) (maxRetries env)),
            Wait (Num (of_int (baseDelay env) * 2 ^ retryCount s1 + at_rnd a1 * 1000))]\<rparr>"
  have first: "attemptOnce env a1 (Some cfg) st = (Again (Some (c1\<lparr>retry := True\<rparr>)), s2)"
    unfolding at1 s1_def [symmetric]
    by (simp add: afterError_def network_retry [OF e1 go] s2_def)
  have s2: "retryCount s2 = 1" "length (requestQueue s2) = 1"
    "waits (effects s2) = waits (effects st) @ [Num (1000 + at_rnd a1 * 1000)]"
    "sends (effects s2) = sends (effects st) + 1"
    using s1 bd by (simp_all add: s2_def waits_append sends_append)
  have room2: "length (requestQueue s2) < maxRequests"
    using s2(2) by (simp add: maxRequests_def)
  from attempt_no_response [OF room2 a2, of "c1\<lparr>retry := True\<rparr>" env]
  obtain c2 where c2: "retry c2"
    and at2: "attemptOnce env a2 (Some (c1\<lparr>retry := True\<rparr>)) s2 =
           afterError env (at_rnd a2) (transportError c2 NoResponse)
             (emit (Send c2)
               (addToRequestQueue (at_now a2) (orElse (url (c1\<lparr>retry := True\<rparr>)) [])
                  (cleanupOldRequests (at_now a2) s2)))"
    by auto
  define s3 where "s3 = emit (Send c2)
               (addToRequestQueue (at_now a2) (orElse (url (c1\<lparr>retry := True\<rparr>)) [])
                  (cleanupOldRequests (at_now a2) s2))"
  have s3: "effects s3 = effects s2 @ [Send c2]"
    by (simp add: s3_def emit_def addToRequestQueue_def cleanupOldRequests_def)
  let ?e2 = "transportError c2 NoResponse"
  have e2: "\<not> isRateLimit ?e2" "response ?e2 = None" "config ?e2 = Some c2"
    by (simp_all add: transportError_def)
  have stop: "retry c2 \<or> \<not> int (retryCount s3) < maxRetries env"
    using c2 by simp
  have second: "attemptOnce env a2 (Some (c1\<lparr>retry := True\<rparr>)) s2 =
      (Done (Rejected (?e2\<lparr>message := ''Network error. Please check your internet connection.''\<rparr>)),
       s3\<lparr>retryCount := 0,
          effects := effects s3 @
            [ToastError (Lit ''Network error. Please check your internet connection.'')]\<rparr>)"
    unfolding at2 s3_def [symmetric]
    by (simp add: afterError_def network_give_up [OF e2 stop])
  have jitter: "1000 \<le> 1000 + at_rnd a1 * 1000" "1000 + at_rnd a1 * 1000 < 2000"
    using a1(2,3) by simp_all
  show ?thesis
    using jitter
    by (simp add: first second e2 s3 s2 waits_append sends_append)
qed

theorem C2_one_retry_per_request_witness:
  "apiRetryAttempts exampleEnv = Some 3 \<and> apiRetryDelay exampleEnv = Some 1000
   \<and> retryCount idle = 0 \<and> requestQueue idle = [] \<and> \<not> retry dataX
   \<and> at_result (netFail 1000) = NoResponse \<and> at_result (netFail 2500) = NoResponse
   \<and> (case fst (apiClient exampleEnv [netFail 1000, netFail 2500, netFail 5000] (Some dataX) idle) of
         Rejected e \<Rightarrow> response e = None \<and> \<not> isRateLimit e | _ \<Rightarrow> False)
   \<and> sends (effects (snd (apiClient exampleEnv [netFail 1000, netFail 2500, netFail 5000]
        (Some dataX) idle))) = 2
   \<and> waits (effects (snd (apiClient exampleEnv [netFail 1000, netFail 2500, netFail 5000]
        (Some dataX) idle))) = [Num 1500]
   \<and> retryCount (snd (apiClient exampleEnv [netFail 1000, netFail 2500, netFail 5000]
        (Some dataX) idle)) = 0"
proof -
  have env: "apiRetryAttempts exampleEnv = Some 3" "apiRetryDelay exampleEnv = Some 1000"
    by (simp_all add: exampleEnv_def)
  have st: "retryCount idle = 0" "requestQueue idle = []" by (simp_all add: idle_def)
  have cfg: "\<not> retry dataX" by (simp add: dataX_def)
  have a1: "at_result (netFail 1000) = NoResponse" "0 \<le> at_rnd (netFail 1000)"
    "at_rnd (netFail 1000) < 1"
    by (simp_all add: netFail_def)
  have a2: "at_result (netFail 2500) = NoResponse" by (simp add: netFail_def)
  have e: "effects idle = []" "at_rnd (netFail 1000) = 1 / 2" by (simp_all add: idle_def netFail_def)
  from C2_one_retry_per_request [OF env st cfg a1 a2, of "[netFail 5000]"]
  obtain e' st' where
    "apiClient exampleEnv [netFail 1000, netFail 2500, netFail 5000] (Some dataX) idle = (Rejected e', st')"
    "response e' = None" "\<not> isRateLimit e'"
    "sends (effects st') = sends (effects idle) + 2"
    "waits (effects st') = waits (effects idle) @ [Num (1000 + at_rnd (netFail 1000) * 1000)]"
    "retryCount st' = 0"
    by blast
  then show ?thesis using env st cfg a1(1) a2 by (simp add: e)
qed

text \<open>
  Claim C2 as it is stated, three retries after 1000, 2000 and 4000 ms, fails on three attempts
  without response: the transport is called twice and the only wait is 1500 ms.
\<close>

theorem C2_counterexample:
  "sends (effects (snd (apiClient exampleEnv [netFail 1000, netFail 2500, netFail 5000]
      (Some dataX) idle))) = 2
   \<and> waits (effects (snd (apiClient exampleEnv [netFail 1000, netFail 2500, netFail 5000]
      (Some dataX) idle))) = [Num 1500]"
  by (simp add: run_defs input_defs)

subsection \<open>Where \<open>retryCount\<close> is reset\<close>

text \<open>
  A fulfilled response and the tail of the error handler reset the counter. The branches
  for the local rate limit and for the statuses 401, 403 and 404 return before the tail
  and leave the counter as it is.
\<close>

lemma success_resets: "retryCount (responseSuccess st) = 0"
  by (simp add: responseSuccess_def)

lemma giveUp_resets: "retryCount (snd (giveUp err st)) = 0"
  by (simp add: giveUp_def emit_def Let_def split: option.splits)

lemma early_returns_keep_retryCount:
  assumes "isRateLimit err \<or> statusOf err = Some 401 \<or> statusOf err = Some 403
     \<or> statusOf err = Some 404"
  shows "retryCount (snd (responseError env rnd err st)) = retryCount st"
proof (cases "isRateLimit err")
  case True
  then show ?thesis by (simp add: local_rate_limit_step)
next
  case False
  with assms consider "statusOf err = Some 401" | "statusOf err = Some 403"
    | "statusOf err = Some 404" by blast
  then show ?thesis
    using False
    by cases (simp_all add: unauthorized_step forbidden_step not_found_step)
qed

text \<open>
  Claim C3 at a concrete run: a request gets no response and is retried, which brings
  \<open>retryCount\<close> to 1; the retry is answered with status 404. The call is rejected with
  the 404 error and \<open>retryCount\<close> is still 1, where the claim has it reset to 0.
\<close>

theorem C3_retry_count_kept_after_404:
  "retryCount (snd (apiClient exampleEnv [netFail 1000, answered 2500 404 None] (Some dataX) idle)) = 1
   \<and> (case fst (apiClient exampleEnv [netFail 1000, answered 2500 404 None] (Some dataX) idle) of
         Rejected e \<Rightarrow> statusOf e | _ \<Rightarrow> None) = Some 404"
  by (simp add: run_defs input_defs)

subsection \<open>A re-issued request in the request interceptor\<close>












subsection \<open>Status 401\<close>

text \<open>
  On a response with status 401 the handler removes \<open>auth_token\<close> and \<open>user_data\<close> from
  \<open>localStorage\<close>, each with one call of \<open>removeItem\<close>, raises the toast
  \<open>Session expired. Please log in again.\<close>, schedules the redirect to \<open>/auth\<close> after
  1500 ms unless \<open>/auth\<close> occurs somewhere in the current path, and rejects the
  error: it waits for nothing and the transport is not called again.
\<close>

lemma unauthorized_effects:
  assumes "\<not> isRateLimit err" and "statusOf err = Some 401"
  shows
    "(let out = fst (responseError env rnd err st);
          st' = snd (responseError env rnd err st)
      in out = Reject err
       \<and> localStorage st' = (localStorage st)(''auth_token'' := None, ''user_data'' := None)
       \<and> removals ''auth_token'' (effects st') = removals ''auth_token'' (effects st) + 1
       \<and> removals ''user_data'' (effects st') = removals ''user_data'' (effects st) + 1
       \<and> toasts (effects st') = toasts (effects st) @ [Lit ''Session expired. Please log in again.'']
       \<and> redirects (effects st') = redirects (effects st) @
            (if str_includes (pathname env) ''/auth'' then [] else [(1500, ''/auth'')])
       \<and> waits (effects st') = waits (effects st)
       \<and> sends (effects st') = sends (effects st))"
  by (simp add: unauthorized_step [OF assms] Let_def removals_append toasts_append
      redirects_append waits_append sends_append removals_def)

text \<open>
  Claim C8 at a concrete page. The test of the handler is \<open>pathname.includes('/auth')\<close>,
  under the comment \<open>Only redirect if not already on auth page\<close>. On the page
  \<open>/authors/7\<close>, which is not the auth page, a response with status 401 removes both
  entries of the credential store and raises the toast, and no redirect is scheduled,
  where the claim has one scheduled after 1500 ms. On \<open>/articles\<close> the redirect is
  scheduled.
\<close>

theorem C8_no_redirect_from_authors_page:
  "fst (responseError (exampleEnv\<lparr>pathname := ''/authors/7''\<rparr>) 0
        (transportError dataX (at_result (answered 1000 401 None))) idle)
     = Reject (transportError dataX (at_result (answered 1000 401 None)))
   \<and> localStorage (snd (responseError (exampleEnv\<lparr>pathname := ''/authors/7''\<rparr>) 0
        (transportError dataX (at_result (answered 1000 401 None))) idle)) ''auth_token'' = None
   \<and> localStorage (snd (responseError (exampleEnv\<lparr>pathname := ''/authors/7''\<rparr>) 0
        (transportError dataX (at_result (answered 1000 401 None))) idle)) ''user_data'' = None
   \<and> toasts (effects (snd (responseError (exampleEnv\<lparr>pathname := ''/authors/7''\<rparr>) 0
        (transportError dataX (at_result (answered 1000 401 None))) idle)))
       = [Lit ''Session expired. Please log in again.'']
   \<and> redirects (effects (snd (responseError (exampleEnv\<lparr>pathname := ''/authors/7''\<rparr>) 0
        (transportError dataX (at_result (answered 1000 401 None))) idle))) = []
   \<and> redirects (effects (snd (responseError exampleEnv 0
        (transportError dataX (at_result (answered 1000 401 None))) idle))) = [(1500, ''/auth'')]"
proof -
  let ?err = "transportError dataX (at_result (answered 1000 401 None))"
  have err: "\<not> isRateLimit ?err" "statusOf ?err = Some 401"
    by (simp_all add: transportError_def answered_def statusOf_def)
  have v: "effects idle = []" "\<not> str_includes (pathname exampleEnv) ''/auth''"
    "str_includes (pathname (exampleEnv\<lparr>pathname := ''/authors/7''\<rparr>)) ''/auth''"
    by (simp_all add: idle_def exampleEnv_def)
  from unauthorized_effects [OF err, of exampleEnv 0 idle]
    unauthorized_effects [OF err, of "exampleEnv\<lparr>pathname := ''/authors/7''\<rparr>" 0 idle]
  show ?thesis by (simp add: Let_def v)
qed

subsection \<open>Status 404\<close>

text \<open>
  Claim C9, as the code has it. On a response with status 404 the handler rejects the
  error it was given, unchanged, without waiting and without another call of the
  transport. It raises the toast \<open>Resource not found.\<close> unless the endpoint contains
  \<open>/admin/\<close>; then it raises no toast and writes a warning to the console. Nothing
  else of the state changes, and nothing is added to the error.
\<close>

theorem C9_not_found:
  assumes "\<not> isRateLimit err" and "statusOf err = Some 404"
  shows
    "(let out = fst (responseError env rnd err st);
          st' = snd (responseError env rnd err st)
      in out = Reject err
       \<and> toasts (effects st') = toasts (effects st) @
            (if str_includes (endpointOf (config err)) ''/admin/'' then []
             else [Lit ''Resource not found.''])
       \<and> waits (effects st') = waits (effects st)
       \<and> sends (effects st') = sends (effects st)
       \<and> retryCount st' = retryCount st
       \<and> requestQueue st' = requestQueue st
       \<and> localStorage st' = localStorage st)"
  by (simp add: not_found_step [OF assms] Let_def toasts_append waits_append sends_append)

theorem C9_not_found_witness:
  "\<not> isRateLimit (transportError adminUsers (at_result (answered 1000 404 None)))
   \<and> statusOf (transportError adminUsers (at_result (answered 1000 404 None))) = Some 404
   \<and> fst (responseError exampleEnv 0 (transportError adminUsers (at_result (answered 1000 404 None))) idle)
       = Reject (transportError adminUsers (at_result (answered 1000 404 None)))
   \<and> toasts (effects (snd (responseError exampleEnv 0
        (transportError adminUsers (at_result (answered 1000 404 None))) idle))) = []
   \<and> fst (responseError exampleEnv 0 (transportError dataX (at_result (answered 1000 404 None))) idle)
       = Reject (transportError dataX (at_result (answered 1000 404 None)))
   \<and> toasts (effects (snd (responseError exampleEnv 0
        (transportError dataX (at_result (answered 1000 404 None))) idle)))
       = [Lit ''Resource not found.'']"
proof -
  let ?admin = "transportError adminUsers (at_result (answered 1000 404 None))"
  let ?other = "transportError dataX (at_result (answered 1000 404 None))"
  have a: "\<not> isRateLimit ?admin" "statusOf ?admin = Some 404"
    and b: "\<not> isRateLimit ?other" "statusOf ?other = Some 404"
    by (simp_all add: transportError_def answered_def statusOf_def)
  have v: "effects idle = []"
    "str_includes (endpointOf (config ?admin)) ''/admin/''"
    "\<not> str_includes (endpointOf (config ?other)) ''/admin/''"
    by (simp_all add: idle_def transportError_def answered_def endpointOf_def orElse_def
        adminUsers_def dataX_def)
  from C9_not_found [OF a, of exampleEnv 0 idle] C9_not_found [OF b, of exampleEnv 0 idle]
  show ?thesis using a b by (simp add: Let_def v)
qed

text \<open>
  Claim C9 as it is stated has the caller receive the error with a flag that marks it eligible
  for fallback data. For \<open>/admin/users\<close> the handler rejects exactly the error of the
  transport and its only effect is the warning on the console.
\<close>

theorem C9_counterexample:
  "responseError exampleEnv 0 (transportError adminUsers (at_result (answered 1000 404 None))) idle
     = (Reject (transportError adminUsers (at_result (answered 1000 404 None))),
        idle\<lparr>effects :=
          [ConsoleWarn ''Admin endpoint not found: /admin/users. Using fallback data if available.'']\<rparr>)"
  by (simp add: not_found_step transportError_def answered_def statusOf_def endpointOf_def
      adminUsers_def orElse_def idle_def)

end
